theory Spec2Isabelle
  imports Complex_Main "HOL-Library.Sublist" "HOL-Library.Log_Nat"
begin

section \<open>TaxiFareNY: the fare-estimator page (app.py)\<close>

text \<open>
  The page is one Python script that the UI framework runs from top to bottom on every
  user action. The model follows the script section by section. Everything the script
  obtains from outside (the clock, the widgets, the map clicks, the geocoder, the fare
  API) is a field of an environment record; the session dictionary is passed explicitly;
  what the script renders and the HTTP requests it sends are returned as lists.

  Coordinates are Python floats that the script only stores and compares; a float is
  modelled by the real number it denotes, and a decimal literal of the script by the
  double that Python reads it as.
\<close>

subsection \<open>Decimal literals as doubles\<close>

text \<open>Rounding to the nearest integer, a tie to the even one.\<close>

definition round_half_even :: "rat \<Rightarrow> int" where
  "round_half_even q =
     (let f = \<lfloor>q\<rfloor>; r = q - of_int f
      in if r < 1 / 2 then f else if 1 / 2 < r then f + 1 else if even f then f else f + 1)"

text \<open>
  The double that Python reads a decimal literal \<open>q\<close> as, for a magnitude from 1 up to
  \<open>2 ^ 53\<close>: with \<open>b\<close> the number of bits of the integer part, the doubles of that
  magnitude are the multiples of \<open>2 ^ (b - 53)\<close>, and the literal is rounded to the
  nearest of them, a tie to the even one.
\<close>

definition float_lit :: "rat \<Rightarrow> real" where
  "float_lit q =
     (let k = 53 - floorlog 2 (nat \<lfloor>\<bar>q\<bar>\<rfloor>)
      in real_of_int (round_half_even (q * 2 ^ k)) / 2 ^ k)"

subsection \<open>Section 3 of the script: constants and the geofence\<close>

definition DEFAULT_LAT :: real where
  "DEFAULT_LAT = float_lit 40.75"

definition DEFAULT_LON :: real where
  "DEFAULT_LON = float_lit (-73.98)"

text \<open>The dictionary \<open>NYC_BOUNDS\<close> has four fixed keys; it is a record.\<close>

record bounds =
  min_lon :: real
  max_lon :: real
  min_lat :: real
  max_lat :: real

definition NYC_BOUNDS :: bounds where
  "NYC_BOUNDS =
     \<lparr>min_lon = float_lit (-74.25), max_lon = float_lit (-73.70),
      min_lat = float_lit 40.50, max_lat = float_lit 40.92\<rparr>"

definition is_within_nyc :: "real \<Rightarrow> real \<Rightarrow> bool" where
  "is_within_nyc lon lat =
     ((min_lon NYC_BOUNDS < lon \<and> lon < max_lon NYC_BOUNDS) \<and>
      (min_lat NYC_BOUNDS < lat \<and> lat < max_lat NYC_BOUNDS))"

subsection \<open>Python exceptions that the script can raise itself\<close>

datatype pyerr = KeyError string | OverflowError

definition bind_err :: "'e + 'a \<Rightarrow> ('a \<Rightarrow> 'e + 'b) \<Rightarrow> 'e + 'b" where
  "bind_err m f = (case m of Inl e \<Rightarrow> Inl e | Inr x \<Rightarrow> f x)"

subsection \<open>Section 4 of the script: the session dictionary\<close>

type_synonym session_state = "string \<rightharpoonup> real"

text \<open>\<open>st.session_state[key]\<close> raises \<open>KeyError\<close> on a missing key.\<close>

definition sget :: "session_state \<Rightarrow> string \<Rightarrow> pyerr + real" where
  "sget ss key = (case ss key of None \<Rightarrow> Inl (KeyError key) | Some v \<Rightarrow> Inr v)"

text \<open>
  The loop \<open>for key in [...]: if key not in st.session_state: ...\<close>; the test
  \<open>"lat" in key\<close> is the substring test.
\<close>

fun init_keys :: "string list \<Rightarrow> session_state \<Rightarrow> session_state" where
  "init_keys [] ss = ss"
| "init_keys (key # keys) ss =
     init_keys keys
       (if ss key = None
        then ss(key \<mapsto> (if sublist ''lat'' key then DEFAULT_LAT else DEFAULT_LON))
        else ss)"

definition init_session :: "session_state \<Rightarrow> session_state" where
  "init_session ss =
     init_keys [''pickup_lat'', ''pickup_lon'', ''dropoff_lat'', ''dropoff_lon''] ss"

subsection \<open>Dates and times (Python's naive \<open>datetime\<close>)\<close>

record pdate =
  year :: nat
  month :: nat
  day :: nat

record ptime =
  hour :: nat
  minute :: nat
  second :: nat
  microsecond :: nat

text \<open>\<open>date_of\<close> is \<open>.date()\<close>, \<open>time_of\<close> is \<open>.time()\<close>.\<close>

record datetime =
  date_of :: pdate
  time_of :: ptime

definition combine :: "pdate \<Rightarrow> ptime \<Rightarrow> datetime" where
  "combine d t = \<lparr>date_of = d, time_of = t\<rparr>"

text \<open>Python compares two datetimes field by field, most significant field first.\<close>

definition dt_fields :: "datetime \<Rightarrow> nat list" where
  "dt_fields dt =
     [year (date_of dt), month (date_of dt), day (date_of dt),
      hour (time_of dt), minute (time_of dt), second (time_of dt), microsecond (time_of dt)]"

fun lex_less :: "nat list \<Rightarrow> nat list \<Rightarrow> bool" where
  "lex_less (x # xs) (y # ys) = (x < y \<or> (x = y \<and> lex_less xs ys))"
| "lex_less _ _ = False"

definition dt_less :: "datetime \<Rightarrow> datetime \<Rightarrow> bool" where
  "dt_less a b = lex_less (dt_fields a) (dt_fields b)"

definition dt_ge :: "datetime \<Rightarrow> datetime \<Rightarrow> bool" where
  "dt_ge a b = (\<not> dt_less a b)"

definition is_leap :: "nat \<Rightarrow> bool" where
  "is_leap y = (y mod 4 = 0 \<and> (y mod 100 \<noteq> 0 \<or> y mod 400 = 0))"

definition days_in_month :: "nat \<Rightarrow> nat \<Rightarrow> nat" where
  "days_in_month y m =
     (if m = 2 then (if is_leap y then 29 else 28)
      else if m = 4 \<or> m = 6 \<or> m = 9 \<or> m = 11 then 30 else 31)"

text \<open>The calendar ends with the year 9999: going past it raises \<open>OverflowError\<close>.\<close>

definition next_day :: "pdate \<Rightarrow> pyerr + pdate" where
  "next_day d =
     (if day d < days_in_month (year d) (month d) then Inr (d\<lparr>day := day d + 1\<rparr>)
      else if month d < 12 then Inr (d\<lparr>month := month d + 1, day := 1\<rparr>)
      else if year d < 9999 then Inr \<lparr>year = year d + 1, month = 1, day = 1\<rparr>
      else Inl OverflowError)"

primrec add_days :: "pdate \<Rightarrow> nat \<Rightarrow> pyerr + pdate" where
  "add_days d 0 = Inr d"
| "add_days d (Suc n) = bind_err (next_day d) (\<lambda>d'. add_days d' n)"

text \<open>\<open>dt + datetime.timedelta(minutes=k)\<close> for \<open>k \<ge> 0\<close>.\<close>

definition add_minutes :: "datetime \<Rightarrow> nat \<Rightarrow> pyerr + datetime" where
  "add_minutes dt k =
     (let total = hour (time_of dt) * 60 + minute (time_of dt) + k in
      bind_err (add_days (date_of dt) (total div 1440))
        (\<lambda>d. Inr \<lparr>date_of = d,
                   time_of = (time_of dt)\<lparr>hour := total mod 1440 div 60,
                                           minute := total mod 60\<rparr>\<rparr>))"

text \<open>\<open>dt.replace(second=0, microsecond=0)\<close>.\<close>

definition replace_second_microsecond :: "datetime \<Rightarrow> datetime" where
  "replace_second_microsecond dt = dt\<lparr>time_of := (time_of dt)\<lparr>second := 0, microsecond := 0\<rparr>\<rparr>"

text \<open>Lines 125 and 126 of the script.\<close>

definition minutes_to_next :: "datetime \<Rightarrow> nat" where
  "minutes_to_next now = (15 - (minute (time_of now) mod 15)) mod 15"

definition rounded_time :: "datetime \<Rightarrow> pyerr + datetime" where
  "rounded_time now =
     bind_err (add_minutes now (minutes_to_next now)) (\<lambda>t. Inr (replace_second_microsecond t))"

subsection \<open>Decimal text\<close>

definition digit :: "nat \<Rightarrow> char" where
  "digit n = ''0123456789'' ! (n mod 10)"

definition pad2 :: "nat \<Rightarrow> string" where
  "pad2 n = [digit (n div 10), digit n]"

definition pad4 :: "nat \<Rightarrow> string" where
  "pad4 n = [digit (n div 1000), digit (n div 100), digit (n div 10), digit n]"

text \<open>
  \<open>dt.strftime("%Y-%m-%d %H:%M:%S")\<close>, each field zero-padded to its width as the
  Python documentation gives it (for years from 1000 on, every platform agrees).
\<close>

definition strftime :: "datetime \<Rightarrow> string" where
  "strftime dt =
     pad4 (year (date_of dt)) @ ''-'' @ pad2 (month (date_of dt)) @ ''-'' @
     pad2 (day (date_of dt)) @ '' '' @ pad2 (hour (time_of dt)) @ '':'' @
     pad2 (minute (time_of dt)) @ '':'' @ pad2 (second (time_of dt))"

function str_nat :: "nat \<Rightarrow> string" where
  "str_nat n = (if n < 10 then [digit n] else str_nat (n div 10) @ [digit n])"
  by pat_completeness auto
termination
  by (relation "measure id") auto

declare str_nat.simps [simp del]

text \<open>\<open>str\<close> of a Python integer, as an f-string inserts it.\<close>

definition str_int :: "int \<Rightarrow> string" where
  "str_int i = (if i < 0 then ''-'' @ str_nat (nat (- i)) else str_nat (nat i))"

subsection \<open>What the page renders and sends\<close>

text \<open>The calls \<open>st.error\<close>, \<open>st.success\<close> and \<open>st.caption\<close>, with their text.\<close>

datatype ui = StError string | StSuccess string | StCaption string

datatype param = PStr string | PFloat real | PInt int

text \<open>One call \<open>requests.get(url, params=params, timeout=timeout)\<close>.\<close>

record request =
  url :: string
  params :: "(string \<times> param) list"
  timeout :: nat

subsection \<open>What the page receives\<close>

text \<open>
  A parsed JSON value; an object is the list of its entries, looked up with \<open>map_of\<close>.
  The type \<open>'f\<close> stands for Python's floats. Parsing decimal text is outside the model:
  a string carries, with its text, what \<open>float\<close> gives on it (the number, or the text of
  the \<open>ValueError\<close>).
\<close>

datatype 'f json =
  JNull | JBool bool | JInt int | JFloat 'f | JStr string "string + 'f"
  | JArr "'f json list" | JObj "(string \<times> 'f json) list"

text \<open>
  The outcome of \<open>requests.get\<close>: it raises (with the exception's text), or returns a
  response with a status code and a \<open>.json()\<close> method, which returns the parsed body or
  raises (with the exception's text).
\<close>

datatype 'f http_outcome =
  Raised string
  | Response (status_code: int) (json_body: "string + 'f json")

text \<open>
  The two builtins applied to the fare are parameters: \<open>float_of v\<close> is \<open>float(v)\<close>,
  with the text of the exception when it raises, and \<open>fmt_2f x\<close> is \<open>f"{x:.2f}"\<close>.
\<close>

record 'f pylib =
  float_of :: "'f json \<Rightarrow> string + 'f"
  fmt_2f :: "'f \<Rightarrow> string"

text \<open>The outcome of \<open>geolocator.reverse\<close>: a location, \<open>None\<close>, or an exception.\<close>

datatype geo_result = Location (address: string) | NoLocation | GeoFailure

record latlng =
  lat :: real
  lng :: real

text \<open>The value of \<open>st_folium(...)\<close>; \<open>None\<close> stands for a falsy value.\<close>

record folium_state =
  last_clicked :: "latlng option"

text \<open>
  Everything one run of the script reads from outside. A date or time widget returns the
  default that the script passes to it (\<open>None\<close> here) or what the user has chosen.
\<close>

record 'f env =
  datetime_now :: datetime
  st_date_input :: "pdate option"
  st_time_input :: "ptime option"
  st_slider :: int
  st_folium_pick :: "folium_state option"
  st_folium_drop :: "folium_state option"
  reverse_pick :: "real \<Rightarrow> real \<Rightarrow> geo_result"
  reverse_drop :: "real \<Rightarrow> real \<Rightarrow> geo_result"
  st_button :: bool
  requests_get :: "request \<Rightarrow> 'f http_outcome"

subsection \<open>Section 6 of the script: the sidebar\<close>

record sidebar =
  date_data :: pdate
  time_data :: ptime
  dt_raw :: datetime
  dt_valid :: bool
  pickup_datetime_formatted :: string
  passenger_count :: int

definition section6 :: "'f env \<Rightarrow> pyerr + (sidebar \<times> ui list)" where
  "section6 env =
     (let now = datetime_now env;
          date_data = (case st_date_input env of None \<Rightarrow> date_of now | Some d \<Rightarrow> d)
      in bind_err (rounded_time now) (\<lambda>rounded.
           let time_data = (case st_time_input env of None \<Rightarrow> time_of rounded | Some t \<Rightarrow> t);
               dt_raw = combine date_data time_data;
               dt_valid = dt_ge dt_raw now
           in Inr (\<lparr>date_data = date_data, time_data = time_data, dt_raw = dt_raw,
                     dt_valid = dt_valid, pickup_datetime_formatted = strftime dt_raw,
                     passenger_count = st_slider env\<rparr>,
                   if \<not> dt_valid then [StError ''Time must be in the future.''] else [])))"

subsection \<open>Section 7 of the script: the two maps\<close>

definition pickup_click :: "folium_state option \<Rightarrow> session_state \<Rightarrow> session_state \<times> ui list" where
  "pickup_click pick_state ss =
     (case pick_state of
        None \<Rightarrow> (ss, [])
      | Some st \<Rightarrow>
          (case last_clicked st of
             None \<Rightarrow> (ss, [])
           | Some c \<Rightarrow>
               if is_within_nyc (lng c) (lat c)
               then (ss(''pickup_lat'' \<mapsto> lat c, ''pickup_lon'' \<mapsto> lng c), [])
               else (ss, [StError ''Selected pickup is outside NYC.''])))"

definition dropoff_click :: "folium_state option \<Rightarrow> session_state \<Rightarrow> session_state \<times> ui list" where
  "dropoff_click drop_state ss =
     (case drop_state of
        None \<Rightarrow> (ss, [])
      | Some st \<Rightarrow>
          (case last_clicked st of
             None \<Rightarrow> (ss, [])
           | Some c \<Rightarrow>
               if is_within_nyc (lng c) (lat c)
               then (ss(''dropoff_lat'' \<mapsto> lat c, ''dropoff_lon'' \<mapsto> lng c), [])
               else (ss, [StError ''Selected dropoff is outside NYC.''])))"

text \<open>The envelope sign that starts the caption, as its four UTF-8 bytes.\<close>

definition envelope :: string where
  "envelope = [CHR 0xF0, CHR 0x9F, CHR 0x93, CHR 0xA8]"

text \<open>
  The \<open>try\<close> block under each map: the two reads of the session and the lookup are all
  inside it, and the bare \<open>except\<close> turns any exception into the placeholder.
\<close>

definition address_caption ::
  "(real \<Rightarrow> real \<Rightarrow> geo_result) \<Rightarrow> session_state \<Rightarrow> string \<Rightarrow> string \<Rightarrow> ui list" where
  "address_caption reverse ss lat_key lon_key =
     (case bind_err (sget ss lat_key) (\<lambda>la. bind_err (sget ss lon_key) (\<lambda>lo. Inr (reverse la lo))) of
        Inl e \<Rightarrow> [StCaption ''Address lookup unavailable.'']
      | Inr (Location a) \<Rightarrow> [StCaption (envelope @ '' Address: '' @ a)]
      | Inr NoLocation \<Rightarrow> [StCaption (envelope @ '' Address: '' @ ''Not found'')]
      | Inr GeoFailure \<Rightarrow> [StCaption ''Address lookup unavailable.''])"

text \<open>
  Each column first reads its two coordinates to place the map and the marker (outside any
  \<open>try\<close>), then handles the click, then shows the address.
\<close>

definition pickup_map :: "'f env \<Rightarrow> session_state \<Rightarrow> pyerr + (session_state \<times> ui list)" where
  "pickup_map env ss =
     bind_err (sget ss ''pickup_lat'') (\<lambda>_. bind_err (sget ss ''pickup_lon'') (\<lambda>_.
       let (ss', errs) = pickup_click (st_folium_pick env) ss
       in Inr (ss', errs @ address_caption (reverse_pick env) ss' ''pickup_lat'' ''pickup_lon'')))"

definition dropoff_map :: "'f env \<Rightarrow> session_state \<Rightarrow> pyerr + (session_state \<times> ui list)" where
  "dropoff_map env ss =
     bind_err (sget ss ''dropoff_lat'') (\<lambda>_. bind_err (sget ss ''dropoff_lon'') (\<lambda>_.
       let (ss', errs) = dropoff_click (st_folium_drop env) ss
       in Inr (ss', errs @ address_caption (reverse_drop env) ss' ''dropoff_lat'' ''dropoff_lon'')))"

subsection \<open>Section 8 of the script: the Estimate Fare button\<close>

definition type_name :: "'f json \<Rightarrow> string" where
  "type_name v =
     (case v of JNull \<Rightarrow> ''NoneType'' | JBool _ \<Rightarrow> ''bool'' | JInt _ \<Rightarrow> ''int''
      | JFloat _ \<Rightarrow> ''float'' | JStr _ _ \<Rightarrow> ''str'' | JArr _ \<Rightarrow> ''list'' | JObj _ \<Rightarrow> ''dict'')"

text \<open>
  \<open>result.get(key)\<close>: on a dictionary the value, or \<open>None\<close> for a missing key; any
  other parsed value has no method \<open>get\<close>, and the call raises \<open>AttributeError\<close>.
\<close>

definition result_get :: "'f json \<Rightarrow> string \<Rightarrow> string + 'f json" where
  "result_get result key =
     (case result of
        JObj entries \<Rightarrow> Inr (case map_of entries key of None \<Rightarrow> JNull | Some v \<Rightarrow> v)
      | _ \<Rightarrow> Inl ([CHR 0x27] @ type_name result @ [CHR 0x27] @
                  '' object has no attribute '' @ [CHR 0x27] @ ''get'' @ [CHR 0x27]))"

definition network_error :: "string \<Rightarrow> ui list" where
  "network_error e = [StError (''Network error: '' @ e)]"

text \<open>The body of the \<open>try\<close> block after the call has returned or raised.\<close>

definition show_response :: "'f pylib \<Rightarrow> 'f http_outcome \<Rightarrow> ui list" where
  "show_response lib outcome =
     (case outcome of
        Raised e \<Rightarrow> network_error e
      | Response status body \<Rightarrow>
          if status = 200 then
            (case body of
               Inl e \<Rightarrow> network_error e
             | Inr result \<Rightarrow>
                 (case result_get result ''fare'' of
                    Inl e \<Rightarrow> network_error e
                  | Inr fare \<Rightarrow>
                      if fare \<noteq> JNull then
                        (case float_of lib fare of
                           Inl e \<Rightarrow> network_error e
                         | Inr x \<Rightarrow> [StSuccess (''Estimated Fare: **$'' @ fmt_2f lib x @ ''**'')])
                      else [StError ''No 'fare' in API response.'']))
          else [StError (''API error '' @ str_int status)])"

text \<open>The dictionary \<open>params\<close>; its four coordinates are read from the session again.\<close>

definition build_params :: "sidebar \<Rightarrow> session_state \<Rightarrow> pyerr + (string \<times> param) list" where
  "build_params sb ss =
     bind_err (sget ss ''pickup_lon'') (\<lambda>plon.
     bind_err (sget ss ''pickup_lat'') (\<lambda>plat.
     bind_err (sget ss ''dropoff_lon'') (\<lambda>dlon.
     bind_err (sget ss ''dropoff_lat'') (\<lambda>dlat.
       Inr [(''pickup_datetime'', PStr (pickup_datetime_formatted sb)),
            (''pickup_longitude'', PFloat plon),
            (''pickup_latitude'', PFloat plat),
            (''dropoff_longitude'', PFloat dlon),
            (''dropoff_latitude'', PFloat dlat),
            (''passenger_count'', PInt (passenger_count sb))]))))"

text \<open>
  The handler is given the script's variables (the sidebar values and the session) and
  returns them with what it renders and sends. \<open>API_URL\<close> is the configured secret.
\<close>

definition estimate_fare ::
  "string \<Rightarrow> 'f pylib \<Rightarrow> 'f env \<Rightarrow> sidebar \<Rightarrow> session_state \<Rightarrow>
     pyerr + (sidebar \<times> session_state \<times> ui list \<times> request list)" where
  "estimate_fare API_URL lib env sb ss =
     (if \<not> st_button env then Inr (sb, ss, [], [])
      else if \<not> dt_valid sb then Inr (sb, ss, [StError ''Please select a valid future time.''], [])
      else
        bind_err (sget ss ''pickup_lon'') (\<lambda>plon.
        bind_err (sget ss ''pickup_lat'') (\<lambda>plat.
          if \<not> is_within_nyc plon plat then Inr (sb, ss, [StError ''Pickup outside NYC.''], [])
          else
            bind_err (sget ss ''dropoff_lon'') (\<lambda>dlon.
            bind_err (sget ss ''dropoff_lat'') (\<lambda>dlat.
              if \<not> is_within_nyc dlon dlat then Inr (sb, ss, [StError ''Dropoff outside NYC.''], [])
              else
                bind_err (build_params sb ss) (\<lambda>ps.
                  let req = \<lparr>url = API_URL, params = ps, timeout = 10\<rparr>
                  in Inr (sb, ss, show_response lib (requests_get env req), [req])))))))"

subsection \<open>One run of the script\<close>

text \<open>
  What a run leaves behind: the session, what was rendered, the requests sent, and the
  exception that ended the run early, if any.
\<close>

record outcome =
  session :: session_state
  shown :: "ui list"
  sent :: "request list"
  uncaught :: "pyerr option"

definition app :: "string \<Rightarrow> 'f pylib \<Rightarrow> 'f env \<Rightarrow> session_state \<Rightarrow> outcome" where
  "app API_URL lib env ss0 =
     (let ss1 = init_session ss0 in
      case section6 env of
        Inl e \<Rightarrow> \<lparr>session = ss1, shown = [], sent = [], uncaught = Some e\<rparr>
      | Inr (sb, ui6) \<Rightarrow>
          (case pickup_map env ss1 of
             Inl e \<Rightarrow> \<lparr>session = ss1, shown = ui6, sent = [], uncaught = Some e\<rparr>
           | Inr (ss2, ui7a) \<Rightarrow>
               (case dropoff_map env ss2 of
                  Inl e \<Rightarrow> \<lparr>session = ss2, shown = ui6 @ ui7a, sent = [], uncaught = Some e\<rparr>
                | Inr (ss3, ui7b) \<Rightarrow>
                    (case estimate_fare API_URL lib env sb ss3 of
                       Inl e \<Rightarrow>
                         \<lparr>session = ss3, shown = ui6 @ ui7a @ ui7b, sent = [], uncaught = Some e\<rparr>
                     | Inr (sb', ss4, ui8, reqs) \<Rightarrow>
                         \<lparr>session = ss4, shown = ui6 @ ui7a @ ui7b @ ui8, sent = reqs,
                          uncaught = None\<rparr>))))"

text \<open>The sessions that runs of the script can produce, from the empty session.\<close>

inductive reachable :: "string \<Rightarrow> 'f pylib \<Rightarrow> session_state \<Rightarrow> bool"
  for API_URL :: string and lib :: "'f pylib" where
  start: "reachable API_URL lib Map.empty"
| run: "reachable API_URL lib ss \<Longrightarrow> reachable API_URL lib (session (app API_URL lib env ss))"

text \<open>Both coordinate pairs are stored and lie inside the box.\<close>

definition coords_ok :: "session_state \<Rightarrow> bool" where
  "coords_ok ss =
     (case (ss ''pickup_lon'', ss ''pickup_lat'', ss ''dropoff_lon'', ss ''dropoff_lat'') of
        (Some plon, Some plat, Some dlon, Some dlat) \<Rightarrow>
          is_within_nyc plon plat \<and> is_within_nyc dlon dlat
      | _ \<Rightarrow> False)"

subsection \<open>The two builtins applied to the fare\<close>

text \<open>
  A Python float: a finite value with its sign bit and its magnitude, an infinity with its
  sign, or a NaN.
\<close>

datatype pyfloat = Finite bool rat | Inf bool | NaN

text \<open>
  \<open>float(n)\<close> on an integer: exact up to 53 bits, otherwise rounded to 53 significant
  bits, a tie to the even one; \<open>OverflowError\<close> when the result is out of range.
\<close>

definition int_to_float :: "int \<Rightarrow> string + pyfloat" where
  "int_to_float n =
     (let a = nat \<bar>n\<bar>; b = floorlog 2 a
      in if b \<le> 53 then Inr (Finite (n < 0) (of_nat a))
         else
           let sh = b - 53; m = round_half_even (of_nat a / 2 ^ sh)
           in if (2::int) ^ 1024 \<le> m * 2 ^ sh then Inl ''int too large to convert to float''
              else Inr (Finite (n < 0) (of_int m * 2 ^ sh)))"

text \<open>\<open>float(v)\<close> on a parsed JSON value, with the text of the exception when it raises.\<close>

definition py_float :: "pyfloat json \<Rightarrow> string + pyfloat" where
  "py_float v =
     (case v of
        JFloat x \<Rightarrow> Inr x
      | JInt n \<Rightarrow> int_to_float n
      | JBool b \<Rightarrow> Inr (Finite False (if b then 1 else 0))
      | JStr s r \<Rightarrow> r
      | _ \<Rightarrow> Inl (''float() argument must be a string or a real number, not '' @
                  [CHR 0x27] @ type_name v @ [CHR 0x27]))"

text \<open>
  \<open>f"{x:.2f}"\<close>: the sign, the integer part, a point and two digits, for the magnitude
  rounded to the nearest hundredth, a tie to the even one.
\<close>

definition format_2f :: "pyfloat \<Rightarrow> string" where
  "format_2f x =
     (case x of
        Finite neg mag \<Rightarrow>
          (let cents = nat (round_half_even (mag * 100))
           in (if neg then ''-'' else []) @ str_nat (cents div 100) @ ''.'' @ pad2 cents)
      | Inf neg \<Rightarrow> (if neg then ''-inf'' else ''inf'')
      | NaN \<Rightarrow> ''nan'')"

definition python_lib :: "pyfloat pylib" where
  "python_lib = \<lparr>float_of = py_float, fmt_2f = format_2f\<rparr>"

subsection \<open>Notions for the statements\<close>

text \<open>Reading decimal text back, to state what a rendered number denotes.\<close>

definition digit_val :: "char \<Rightarrow> nat" where
  "digit_val c = of_char c - 48"

definition decimal :: "string \<Rightarrow> nat" where
  "decimal s = foldl (\<lambda>a c. 10 * a + digit_val c) 0 s"

definition is_digits :: "string \<Rightarrow> bool" where
  "is_digits s = (s \<noteq> [] \<and> list_all (\<lambda>c. c \<in> set ''0123456789'') s)"


subsection \<open>Inputs for running the model\<close>

definition at_time :: "nat \<Rightarrow> nat \<Rightarrow> nat \<Rightarrow> datetime" where
  "at_time h m s =
     \<lparr>date_of = \<lparr>year = 2026, month = 11, day = 3\<rparr>,
      time_of = \<lparr>hour = h, minute = m, second = s, microsecond = 0\<rparr>\<rparr>"

text \<open>
  A run at 10:07:00 with untouched widgets, no click, the button pressed, and a fare API
  that answers with the given outcome.
\<close>

definition example_env :: "pyfloat http_outcome \<Rightarrow> pyfloat env" where
  "example_env answer =
     \<lparr>datetime_now = at_time 10 7 0, st_date_input = None, st_time_input = None,
      st_slider = 2, st_folium_pick = None, st_folium_drop = None,
      reverse_pick = (\<lambda>_ _. NoLocation), reverse_drop = (\<lambda>_ _. GeoFailure),
      st_button = True, requests_get = (\<lambda>_. answer)\<rparr>"

definition fare_12_50 :: "pyfloat http_outcome" where
  "fare_12_50 = Response 200 (Inr (JObj [(''fare'', JFloat (Finite False 12.5))]))"

definition example_session :: "real \<Rightarrow> real \<Rightarrow> real \<Rightarrow> real \<Rightarrow> session_state" where
  "example_session plat plon dlat dlon =
     [''pickup_lat'' \<mapsto> plat, ''pickup_lon'' \<mapsto> plon,
      ''dropoff_lat'' \<mapsto> dlat, ''dropoff_lon'' \<mapsto> dlon]"

definition example_sidebar :: "bool \<Rightarrow> sidebar" where
  "example_sidebar valid =
     \<lparr>date_data = date_of (at_time 10 15 0), time_data = time_of (at_time 10 15 0),
      dt_raw = at_time 10 15 0, dt_valid = valid,
      pickup_datetime_formatted = ''2026-11-03 10:15:00'', passenger_count = 2\<rparr>"

definition click_at :: "real \<Rightarrow> real \<Rightarrow> folium_state option" where
  "click_at la lo = Some \<lparr>last_clicked = Some \<lparr>lat = la, lng = lo\<rparr>\<rparr>"

definition example_request :: request where
  "example_request =
     \<lparr>url = ''https://fare.example'',
      params = [(''pickup_datetime'', PStr ''2026-11-03 10:15:00''),
                (''pickup_longitude'', PFloat DEFAULT_LON), (''pickup_latitude'', PFloat DEFAULT_LAT),
                (''dropoff_longitude'', PFloat (-73.99)), (''dropoff_latitude'', PFloat 40.76),
                (''passenger_count'', PInt 2)],
      timeout = 10\<rparr>"


section \<open>The geofence\<close>

lemma float_lit_values:
  "float_lit (-74.25) = - 5224879255191552 / 2 ^ 46"
  "float_lit (-73.70) = - 5186176445893837 / 2 ^ 46"
  "float_lit 40.50 = 5699868278390784 / 2 ^ 47"
  "float_lit 40.92 = 5758978023500022 / 2 ^ 47"
  "float_lit 40.75 = 5735052650479616 / 2 ^ 47"
  "float_lit (-73.98) = - 5205879694263583 / 2 ^ 46"
  by code_simp+

text \<open>Each of them has a 53-bit significand and lies within half a unit of its literal.\<close>

lemma float_lit_nearest:
  "(2::int) ^ 52 \<le> 5224879255191552 \<and> (5224879255191552::int) < 2 ^ 53
   \<and> \<bar>float_lit (-74.25) - (-74.25)\<bar> * 2 ^ 47 \<le> 1"
  "(2::int) ^ 52 \<le> 5186176445893837 \<and> (5186176445893837::int) < 2 ^ 53
   \<and> \<bar>float_lit (-73.70) - (-73.70)\<bar> * 2 ^ 47 \<le> 1"
  "(2::int) ^ 52 \<le> 5699868278390784 \<and> (5699868278390784::int) < 2 ^ 53
   \<and> \<bar>float_lit 40.50 - 40.50\<bar> * 2 ^ 48 \<le> 1"
  "(2::int) ^ 52 \<le> 5758978023500022 \<and> (5758978023500022::int) < 2 ^ 53
   \<and> \<bar>float_lit 40.92 - 40.92\<bar> * 2 ^ 48 \<le> 1"
  "(2::int) ^ 52 \<le> 5735052650479616 \<and> (5735052650479616::int) < 2 ^ 53
   \<and> \<bar>float_lit 40.75 - 40.75\<bar> * 2 ^ 48 \<le> 1"
  "(2::int) ^ 52 \<le> 5205879694263583 \<and> (5205879694263583::int) < 2 ^ 53
   \<and> \<bar>float_lit (-73.98) - (-73.98)\<bar> * 2 ^ 47 \<le> 1"
  by (simp_all only: float_lit_values) simp_all

lemma NYC_BOUNDS_values:
  "NYC_BOUNDS =
     \<lparr>min_lon = - 5224879255191552 / 2 ^ 46, max_lon = - 5186176445893837 / 2 ^ 46,
      min_lat = 5699868278390784 / 2 ^ 47, max_lat = 5758978023500022 / 2 ^ 47\<rparr>"
  by (simp only: NYC_BOUNDS_def float_lit_values)

lemma DEFAULT_values:
  "DEFAULT_LAT = 5735052650479616 / 2 ^ 47" "DEFAULT_LON = - 5205879694263583 / 2 ^ 46"
  by (simp_all only: DEFAULT_LAT_def DEFAULT_LON_def float_lit_values)

text \<open>
  Claim C1. For every pair of a longitude and a latitude, \<open>is_within_nyc\<close> returns true
  exactly when the longitude lies strictly between -74.25 and -73.70 and the latitude
  strictly between 40.50 and 40.92, the four literals being the doubles that Python reads
  them as. Every point on an edge of the box is outside: the point with longitude -74.25
  and latitude 40.75, and likewise the points on the east, south and north edges.
\<close>

theorem is_within_nyc_strict_box:
  "(is_within_nyc lon la \<longleftrightarrow>
      (float_lit (-74.25) < lon \<and> lon < float_lit (-73.70) \<and>
       float_lit 40.50 < la \<and> la < float_lit 40.92))
   \<and> float_lit (-74.25) = -74.25
   \<and> float_lit (-73.70) = -73.7000000000000028421709430404007434844970703125
   \<and> float_lit 40.50 = 40.5
   \<and> float_lit 40.92 = 40.9200000000000017053025658242404460906982421875
   \<and> \<not> is_within_nyc (-74.25) 40.75
   \<and> \<not> is_within_nyc (float_lit (-74.25)) (float_lit 40.75)
   \<and> \<not> is_within_nyc (float_lit (-73.70)) (float_lit 40.75)
   \<and> \<not> is_within_nyc (float_lit (-73.98)) (float_lit 40.50)
   \<and> \<not> is_within_nyc (float_lit (-73.98)) (float_lit 40.92)
   \<and> is_within_nyc (float_lit (-73.98)) (float_lit 40.75)"
proof -
  have "is_within_nyc lon la \<longleftrightarrow>
      (float_lit (-74.25) < lon \<and> lon < float_lit (-73.70) \<and>
       float_lit 40.50 < la \<and> la < float_lit 40.92)"
    by (simp add: is_within_nyc_def NYC_BOUNDS_def)
  moreover have "float_lit (-74.25) = -74.25"
    "float_lit (-73.70) = -73.7000000000000028421709430404007434844970703125"
    "float_lit 40.50 = 40.5"
    "float_lit 40.92 = 40.9200000000000017053025658242404460906982421875"
    by (simp_all only: float_lit_values) simp_all
  moreover have "\<not> is_within_nyc (-74.25) 40.75"
    by (simp add: is_within_nyc_def NYC_BOUNDS_values)
  moreover have "\<not> is_within_nyc (float_lit (-74.25)) (float_lit 40.75)"
    "\<not> is_within_nyc (float_lit (-73.70)) (float_lit 40.75)"
    "\<not> is_within_nyc (float_lit (-73.98)) (float_lit 40.50)"
    "\<not> is_within_nyc (float_lit (-73.98)) (float_lit 40.92)"
    "is_within_nyc (float_lit (-73.98)) (float_lit 40.75)"
    by (simp_all only: float_lit_values) (simp_all add: is_within_nyc_def NYC_BOUNDS_values)
  ultimately show ?thesis by blast
qed

section \<open>Auxiliary facts\<close>

lemma sget_Some: "ss k = Some v \<Longrightarrow> sget ss k = Inr v"
  by (simp add: sget_def)

lemma sget_None: "ss k = None \<Longrightarrow> sget ss k = Inl (KeyError k)"
  by (simp add: sget_def)

lemma sget_Inr: "sget ss k = Inr v \<longleftrightarrow> ss k = Some v"
  by (simp add: sget_def split: option.splits)

lemma bind_err_Inr: "bind_err (Inr x) f = f x"
  by (simp add: bind_err_def)

lemma bind_err_Inl: "bind_err (Inl e) f = Inl e"
  by (simp add: bind_err_def)

lemmas err_simps = sget_Some sget_None bind_err_Inr bind_err_Inl

lemma coords_ok_iff:
  "coords_ok ss \<longleftrightarrow>
     (\<exists>plon plat dlon dlat.
        ss ''pickup_lon'' = Some plon \<and> ss ''pickup_lat'' = Some plat \<and>
        ss ''dropoff_lon'' = Some dlon \<and> ss ''dropoff_lat'' = Some dlat \<and>
        is_within_nyc plon plat \<and> is_within_nyc dlon dlat)"
  by (auto simp: coords_ok_def split: option.splits)

subsection \<open>Decimal text and rounding\<close>

lemma digit_val_upt: "\<forall>k\<in>{0..<10}. digit_val (''0123456789'' ! k) = k"
  by code_simp

lemma digit_val_nth: "k < 10 \<Longrightarrow> digit_val (''0123456789'' ! k) = k"
  using digit_val_upt by simp

lemma digit_val_digit: "digit_val (digit n) = n mod 10"
  by (simp add: digit_def digit_val_nth)

lemma digit_is_digit: "digit n \<in> set ''0123456789''"
  unfolding digit_def by (rule nth_mem) simp

lemma decimal_snoc: "decimal (s @ [c]) = 10 * decimal s + digit_val c"
  by (simp add: decimal_def)


lemma is_digits_pad2: "is_digits (pad2 n)"
  using digit_is_digit[of n] digit_is_digit[of "n div 10"]
  by (simp add: is_digits_def pad2_def)



lemma decimal_str_nat: "decimal (str_nat n) = n"
proof (induction n rule: str_nat.induct)
  case (1 n)
  show ?case
  proof (cases "n < 10")
    case True
    then have "str_nat n = [digit n]" by (subst str_nat.simps) simp
    with True show ?thesis by (simp add: decimal_def digit_val_digit)
  next
    case False
    then have s: "str_nat n = str_nat (n div 10) @ [digit n]" by (subst str_nat.simps) simp
    have "decimal (str_nat (n div 10)) = n div 10" using 1 False by simp
    then show ?thesis by (simp add: s decimal_snoc digit_val_digit)
  qed
qed

lemma is_digits_str_nat: "is_digits (str_nat n)"
proof (induction n rule: str_nat.induct)
  case (1 n)
  show ?case
  proof (cases "n < 10")
    case True
    then have "str_nat n = [digit n]" by (subst str_nat.simps) simp
    then show ?thesis using digit_is_digit[of n] by (simp add: is_digits_def)
  next
    case False
    then have s: "str_nat n = str_nat (n div 10) @ [digit n]" by (subst str_nat.simps) simp
    have "is_digits (str_nat (n div 10))" using 1 False by simp
    then show ?thesis using digit_is_digit[of n] by (simp add: s is_digits_def)
  qed
qed

lemma round_half_even_unfold:
  "round_half_even q =
     (if q - of_int \<lfloor>q\<rfloor> < 1 / 2 then \<lfloor>q\<rfloor>
      else if 1 / 2 < q - of_int \<lfloor>q\<rfloor> then \<lfloor>q\<rfloor> + 1
      else if even \<lfloor>q\<rfloor> then \<lfloor>q\<rfloor> else \<lfloor>q\<rfloor> + 1)"
  by (simp add: round_half_even_def Let_def)

lemma frac_bounds: "0 \<le> q - of_int \<lfloor>q\<rfloor>" "q - of_int \<lfloor>q\<rfloor> < (1::rat)"
  by linarith+

lemma round_half_even_near: "\<bar>of_int (round_half_even q) - q\<bar> \<le> 1 / 2"
proof -
  define f r where "f = \<lfloor>q\<rfloor>" and "r = q - of_int \<lfloor>q\<rfloor>"
  have r: "0 \<le> r" "r < 1" and q: "q = of_int f + r"
    using frac_bounds[of q] by (simp_all add: f_def r_def)
  have "round_half_even q = f \<or> round_half_even q = f + 1"
    by (auto simp: round_half_even_unfold f_def)
  moreover have "round_half_even q = f \<Longrightarrow> r \<le> 1 / 2"
    unfolding round_half_even_unfold f_def r_def by (auto split: if_splits)
  moreover have "round_half_even q = f + 1 \<Longrightarrow> 1 / 2 \<le> r"
    unfolding round_half_even_unfold f_def r_def by (auto split: if_splits)
  ultimately show ?thesis
    using r unfolding q by auto
qed

lemma round_half_even_tie:
  assumes "\<bar>of_int (round_half_even q) - q\<bar> = 1 / 2"
  shows "even (round_half_even q)"
proof -
  define f r where "f = \<lfloor>q\<rfloor>" and "r = q - of_int \<lfloor>q\<rfloor>"
  have r: "0 \<le> r" "r < 1" and q: "q = of_int f + r"
    using frac_bounds[of q] by (simp_all add: f_def r_def)
  have u: "round_half_even q =
      (if r < 1 / 2 then f else if 1 / 2 < r then f + 1 else if even f then f else f + 1)"
    by (simp add: round_half_even_unfold f_def r_def)
  have "r = 1 / 2"
  proof (cases "r < 1 / 2")
    case True
    then have "round_half_even q = f" by (simp add: u)
    with assms q r True show ?thesis by simp
  next
    case False
    show ?thesis
    proof (cases "1 / 2 < r")
      case True
      then have "round_half_even q = f + 1" using False by (simp add: u)
      with assms q r True show ?thesis by simp
    next
      case False
      with \<open>\<not> r < 1 / 2\<close> show ?thesis by simp
    qed
  qed
  then show ?thesis by (simp add: u)
qed

lemma round_half_even_nonneg: "0 \<le> q \<Longrightarrow> 0 \<le> round_half_even q"
proof -
  assume "0 \<le> q"
  then have "0 \<le> \<lfloor>q\<rfloor>" by simp
  then show ?thesis by (simp add: round_half_even_unfold)
qed

section \<open>The map clicks\<close>

text \<open>
  Claim C5. A click on the pickup map (respectively the dropoff map) at a point that passes
  \<open>is_within_nyc\<close> stores that point as the pickup (respectively dropoff) coordinates and
  renders no error; a click at a point that fails leaves the session as it was and renders
  the geofence error of that map. Neither handler changes any key other than its own two.
\<close>

theorem click_updates_only_its_own_pair:
  assumes "pickup_click (Some \<lparr>last_clicked = Some c\<rparr>) ss = (ss1, ui1)"
      and "dropoff_click (Some \<lparr>last_clicked = Some c\<rparr>) ss = (ss2, ui2)"
  shows "(is_within_nyc (lng c) (lat c) \<longrightarrow>
            sget ss1 ''pickup_lat'' = Inr (lat c) \<and> sget ss1 ''pickup_lon'' = Inr (lng c) \<and> ui1 = []
            \<and> sget ss2 ''dropoff_lat'' = Inr (lat c) \<and> sget ss2 ''dropoff_lon'' = Inr (lng c) \<and> ui2 = [])
       \<and> (\<not> is_within_nyc (lng c) (lat c) \<longrightarrow>
            ss1 = ss \<and> ui1 = [StError ''Selected pickup is outside NYC.'']
            \<and> ss2 = ss \<and> ui2 = [StError ''Selected dropoff is outside NYC.''])
       \<and> (\<forall>k. k \<noteq> ''pickup_lat'' \<and> k \<noteq> ''pickup_lon'' \<longrightarrow> ss1 k = ss k)
       \<and> (\<forall>k. k \<noteq> ''dropoff_lat'' \<and> k \<noteq> ''dropoff_lon'' \<longrightarrow> ss2 k = ss k)"
  using assms by (auto simp: pickup_click_def dropoff_click_def sget_def split: if_splits)

section \<open>The Estimate Fare button\<close>

lemma estimate_fare_sent_reads:
  assumes "estimate_fare API_URL lib env sb ss = Inr (sb', ss', ui8, reqs)" and "reqs \<noteq> []"
  shows "st_button env \<and> dt_valid sb \<and>
         (\<exists>plon plat dlon dlat.
            sget ss ''pickup_lon'' = Inr plon \<and> sget ss ''pickup_lat'' = Inr plat \<and>
            sget ss ''dropoff_lon'' = Inr dlon \<and> sget ss ''dropoff_lat'' = Inr dlat \<and>
            is_within_nyc plon plat \<and> is_within_nyc dlon dlat)"
  using assms
  by (auto simp: estimate_fare_def bind_err_def Let_def split: if_splits sum.splits)

lemma estimate_fare_sent_needs_all:
  assumes "estimate_fare API_URL lib env sb ss = Inr (sb', ss', ui8, reqs)" and "reqs \<noteq> []"
  shows "st_button env \<and> dt_valid sb \<and> coords_ok ss"
  using estimate_fare_sent_reads[OF assms] by (auto simp: coords_ok_def sget_Inr)

text \<open>
  Claim C2. When the button is pressed, three preconditions are checked in this order: the
  combined date and time is not in the past, the pickup passes the geofence, the dropoff
  passes the geofence. The first one that fails decides the outcome, whatever the later
  ones would give: its own error message is the only element rendered, the three messages
  differ from each other, and no HTTP request is sent. A request is sent only when the
  button was pressed and all three preconditions hold.
\<close>

theorem estimate_fare_checks_in_order:
  assumes "st_button env"
  shows "(\<not> dt_valid sb \<longrightarrow>
            estimate_fare API_URL lib env sb ss =
              Inr (sb, ss, [StError ''Please select a valid future time.''], []))
       \<and> (dt_valid sb \<and> ss ''pickup_lon'' = Some plon \<and> ss ''pickup_lat'' = Some plat
            \<and> \<not> is_within_nyc plon plat \<longrightarrow>
            estimate_fare API_URL lib env sb ss = Inr (sb, ss, [StError ''Pickup outside NYC.''], []))
       \<and> (dt_valid sb \<and> ss ''pickup_lon'' = Some plon \<and> ss ''pickup_lat'' = Some plat
            \<and> is_within_nyc plon plat
            \<and> ss ''dropoff_lon'' = Some dlon \<and> ss ''dropoff_lat'' = Some dlat
            \<and> \<not> is_within_nyc dlon dlat \<longrightarrow>
            estimate_fare API_URL lib env sb ss = Inr (sb, ss, [StError ''Dropoff outside NYC.''], []))
       \<and> distinct [''Please select a valid future time.'', ''Pickup outside NYC.'',
                    ''Dropoff outside NYC.'']
       \<and> (\<forall>sb' ss' ui8 reqs.
            estimate_fare API_URL lib env sb ss = Inr (sb', ss', ui8, reqs) \<and> reqs \<noteq> [] \<longrightarrow>
            dt_valid sb \<and> coords_ok ss)"
proof -
  have "\<forall>sb' ss' ui8 reqs.
      estimate_fare API_URL lib env sb ss = Inr (sb', ss', ui8, reqs) \<and> reqs \<noteq> [] \<longrightarrow>
      dt_valid sb \<and> coords_ok ss"
    using estimate_fare_sent_needs_all by blast
  moreover have "\<not> dt_valid sb \<longrightarrow>
      estimate_fare API_URL lib env sb ss =
        Inr (sb, ss, [StError ''Please select a valid future time.''], [])"
    using assms by (simp add: estimate_fare_def)
  moreover have "dt_valid sb \<and> ss ''pickup_lon'' = Some plon \<and> ss ''pickup_lat'' = Some plat
      \<and> \<not> is_within_nyc plon plat \<longrightarrow>
      estimate_fare API_URL lib env sb ss = Inr (sb, ss, [StError ''Pickup outside NYC.''], [])"
    using assms by (simp add: estimate_fare_def sget_Some bind_err_Inr)
  moreover have "dt_valid sb \<and> ss ''pickup_lon'' = Some plon \<and> ss ''pickup_lat'' = Some plat
      \<and> is_within_nyc plon plat
      \<and> ss ''dropoff_lon'' = Some dlon \<and> ss ''dropoff_lat'' = Some dlat
      \<and> \<not> is_within_nyc dlon dlat \<longrightarrow>
      estimate_fare API_URL lib env sb ss = Inr (sb, ss, [StError ''Dropoff outside NYC.''], [])"
    using assms by (simp add: estimate_fare_def sget_Some bind_err_Inr)
  moreover have "distinct [''Please select a valid future time.'', ''Pickup outside NYC.'',
      ''Dropoff outside NYC.'']"
    by simp
  ultimately show ?thesis by blast
qed













lemma estimate_fare_frame:
  "estimate_fare API_URL lib env sb ss = Inr (sb', ss', ui8, reqs) \<Longrightarrow> sb' = sb \<and> ss' = ss"
  by (auto simp: estimate_fare_def bind_err_def Let_def split: if_splits sum.splits)

lemma estimate_fare_at_most_one:
  "estimate_fare API_URL lib env sb ss = Inr (sb', ss', ui8, reqs) \<Longrightarrow> length reqs \<le> 1"
  by (auto simp: estimate_fare_def bind_err_def Let_def split: if_splits sum.splits)

lemma section6_button: "section6 (env\<lparr>st_button := b\<rparr>) = section6 env"
  by (simp add: section6_def)

lemma pickup_map_button: "pickup_map (env\<lparr>st_button := b\<rparr>) ss = pickup_map env ss"
  by (simp add: pickup_map_def)

lemma dropoff_map_button: "dropoff_map (env\<lparr>st_button := b\<rparr>) ss = dropoff_map env ss"
  by (simp add: dropoff_map_def)

lemma app_session_cases:
  "session (app API_URL lib env ss0) =
     (case section6 env of
        Inl e \<Rightarrow> init_session ss0
      | Inr r6 \<Rightarrow>
          (case pickup_map env (init_session ss0) of
             Inl e \<Rightarrow> init_session ss0
           | Inr (ss2, ui7a) \<Rightarrow>
               (case dropoff_map env ss2 of Inl e \<Rightarrow> ss2 | Inr (ss3, ui7b) \<Rightarrow> ss3)))"
  using estimate_fare_frame[of API_URL lib env]
  by (auto simp: app_def Let_def split: sum.splits prod.splits)

text \<open>
  Claim C8. The handler never changes the script's state: whatever it returns, the sidebar
  values (date, time, passenger count) and the session are the ones it was given; and the
  session that a run leaves behind is the same whether or not the button was pressed,
  whatever the fare API answers.
\<close>

theorem estimate_fare_keeps_state:
  "(\<forall>sb' ss' ui8 reqs.
      estimate_fare API_URL lib env sb ss = Inr (sb', ss', ui8, reqs) \<longrightarrow> sb' = sb \<and> ss' = ss)
   \<and> session (app API_URL lib env ss0) = session (app API_URL lib (env\<lparr>st_button := False\<rparr>) ss0)"
  using estimate_fare_frame[of API_URL lib env sb ss]
  by (auto simp: app_session_cases section6_button pickup_map_button dropoff_map_button
           split: sum.splits prod.splits)

section \<open>Reverse geocoding\<close>

lemma address_caption_cases:
  assumes "ss lat_key = Some la" and "ss lon_key = Some lo"
  shows "address_caption geo ss lat_key lon_key =
           [StCaption (case geo la lo of
                         Location a \<Rightarrow> envelope @ '' Address: '' @ a
                       | NoLocation \<Rightarrow> envelope @ '' Address: Not found''
                       | GeoFailure \<Rightarrow> ''Address lookup unavailable.'')]"
  using assms by (simp add: address_caption_def err_simps split: geo_result.splits)

lemma address_caption_one: "\<exists>cap. address_caption geo ss lat_key lon_key = [StCaption cap]"
  by (auto simp: address_caption_def split: sum.splits geo_result.splits)

lemma pickup_map_geo:
  "map_sum id fst (pickup_map (env\<lparr>reverse_pick := g1, reverse_drop := g2\<rparr>) ss) =
   map_sum id fst (pickup_map env ss)"
  by (auto simp: pickup_map_def bind_err_def Let_def split: sum.splits prod.splits)

lemma dropoff_map_geo:
  "map_sum id fst (dropoff_map (env\<lparr>reverse_pick := g1, reverse_drop := g2\<rparr>) ss) =
   map_sum id fst (dropoff_map env ss)"
  by (auto simp: dropoff_map_def bind_err_def Let_def split: sum.splits prod.splits)

lemma section6_geo: "section6 (env\<lparr>reverse_pick := g1, reverse_drop := g2\<rparr>) = section6 env"
  by (simp add: section6_def)

lemma estimate_fare_geo:
  "estimate_fare API_URL lib (env\<lparr>reverse_pick := g1, reverse_drop := g2\<rparr>) sb ss =
   estimate_fare API_URL lib env sb ss"
  by (simp add: estimate_fare_def Let_def cong: if_cong)

lemma app_geo:
  "session (app API_URL lib (env\<lparr>reverse_pick := g1, reverse_drop := g2\<rparr>) ss0) = session (app API_URL lib env ss0)
   \<and> sent (app API_URL lib (env\<lparr>reverse_pick := g1, reverse_drop := g2\<rparr>) ss0) = sent (app API_URL lib env ss0)
   \<and> uncaught (app API_URL lib (env\<lparr>reverse_pick := g1, reverse_drop := g2\<rparr>) ss0) = uncaught (app API_URL lib env ss0)"
proof -
  let ?env' = "env\<lparr>reverse_pick := g1, reverse_drop := g2\<rparr>"
  let ?ss1 = "init_session ss0"
  show ?thesis
  proof (cases "section6 env")
    case (Inl e)
    then show ?thesis by (simp add: app_def section6_geo)
  next
    case s6: (Inr r6)
    obtain sb ui6 where r6: "r6 = (sb, ui6)" by (cases r6)
    show ?thesis
    proof (cases "pickup_map env ?ss1")
      case (Inl e)
      then have "pickup_map ?env' ?ss1 = Inl e"
        using pickup_map_geo[where env=env and ?g1.0=g1 and ?g2.0=g2 and ss="?ss1"]
        by (cases "pickup_map ?env' ?ss1") auto
      with Inl s6 r6 show ?thesis by (simp add: app_def section6_geo)
    next
      case p: (Inr rp)
      obtain ss2 ui7a where rp: "rp = (ss2, ui7a)" by (cases rp)
      obtain ui7a' where p': "pickup_map ?env' ?ss1 = Inr (ss2, ui7a')"
        using pickup_map_geo[where env=env and ?g1.0=g1 and ?g2.0=g2 and ss="?ss1"] p rp
        by (cases "pickup_map ?env' ?ss1") auto
      show ?thesis
      proof (cases "dropoff_map env ss2")
        case (Inl e)
        then have "dropoff_map ?env' ss2 = Inl e"
          using dropoff_map_geo[where env=env and ?g1.0=g1 and ?g2.0=g2 and ss=ss2]
          by (cases "dropoff_map ?env' ss2") auto
        with Inl s6 r6 p rp p' show ?thesis by (simp add: app_def section6_geo)
      next
        case d: (Inr rd)
        obtain ss3 ui7b where rd: "rd = (ss3, ui7b)" by (cases rd)
        obtain ui7b' where d': "dropoff_map ?env' ss2 = Inr (ss3, ui7b')"
          using dropoff_map_geo[where env=env and ?g1.0=g1 and ?g2.0=g2 and ss=ss2] d rd
          by (cases "dropoff_map ?env' ss2") auto
        show ?thesis
          using s6 r6 p rp p' d rd d'
          by (auto simp: app_def section6_geo estimate_fare_geo split: sum.splits)
      qed
    qed
  qed
qed

text \<open>
  Claim C9. Whatever the reverse-geocoding lookup does, the caption is defined: the address
  when a location is found, the text \<open>Not found\<close> when the lookup returns nothing, and the
  placeholder \<open>Address lookup unavailable.\<close> when it raises; exactly one caption is
  rendered in every case. The outcome of the lookups changes neither the session that the
  run leaves behind, nor the requests it sends, nor whether the run ends with an uncaught
  exception.
\<close>

theorem geocoding_failure_is_contained:
  "(ss lat_key = Some la \<and> ss lon_key = Some lo \<longrightarrow>
      address_caption geo ss lat_key lon_key =
        [StCaption (case geo la lo of
                      Location a \<Rightarrow> envelope @ '' Address: '' @ a
                    | NoLocation \<Rightarrow> envelope @ '' Address: Not found''
                    | GeoFailure \<Rightarrow> ''Address lookup unavailable.'')])
   \<and> (\<exists>cap. address_caption geo ss lat_key lon_key = [StCaption cap])
   \<and> session (app API_URL lib (env\<lparr>reverse_pick := g1, reverse_drop := g2\<rparr>) ss0) =
       session (app API_URL lib env ss0)
   \<and> sent (app API_URL lib (env\<lparr>reverse_pick := g1, reverse_drop := g2\<rparr>) ss0) =
       sent (app API_URL lib env ss0)
   \<and> uncaught (app API_URL lib (env\<lparr>reverse_pick := g1, reverse_drop := g2\<rparr>) ss0) =
       uncaught (app API_URL lib env ss0)"
  using address_caption_cases[of ss lat_key la lon_key lo geo]
    address_caption_one[of geo ss lat_key lon_key] app_geo[where API_URL = API_URL and lib = lib and ?g1.0 = g1 and ?g2.0 = g2 and env = env
      and ?ss0.0 = ss0]
  by blast

section \<open>The sessions that runs can produce\<close>

lemma lat_in_key:
  "sublist ''lat'' ''pickup_lat''" "\<not> sublist ''lat'' ''pickup_lon''"
  "sublist ''lat'' ''dropoff_lat''" "\<not> sublist ''lat'' ''dropoff_lon''"
  by code_simp+

lemma default_within: "is_within_nyc DEFAULT_LON DEFAULT_LAT"
  by (simp add: is_within_nyc_def NYC_BOUNDS_values DEFAULT_values)

lemma init_session_empty:
  "init_session Map.empty = example_session DEFAULT_LAT DEFAULT_LON DEFAULT_LAT DEFAULT_LON"
  by (simp add: init_session_def example_session_def lat_in_key)

lemma init_session_ok: "coords_ok ss \<Longrightarrow> init_session ss = ss"
  by (auto simp: coords_ok_iff init_session_def)

lemma coords_ok_init: "ss = Map.empty \<or> coords_ok ss \<Longrightarrow> coords_ok (init_session ss)"
proof (erule disjE)
  assume "ss = Map.empty"
  then show ?thesis
    using default_within by (simp add: init_session_empty coords_ok_iff example_session_def)
next
  assume "coords_ok ss"
  then show ?thesis by (simp add: init_session_ok)
qed

lemma pickup_click_ok: "coords_ok ss \<Longrightarrow> coords_ok (fst (pickup_click st ss))"
  by (auto simp: pickup_click_def coords_ok_iff split: option.splits)

lemma dropoff_click_ok: "coords_ok ss \<Longrightarrow> coords_ok (fst (dropoff_click st ss))"
  by (auto simp: dropoff_click_def coords_ok_iff split: option.splits)

lemma pickup_click_ui:
  "set (snd (pickup_click st ss)) \<subseteq> {StError ''Selected pickup is outside NYC.''}"
  by (auto simp: pickup_click_def split: option.splits)

lemma dropoff_click_ui:
  "set (snd (dropoff_click st ss)) \<subseteq> {StError ''Selected dropoff is outside NYC.''}"
  by (auto simp: dropoff_click_def split: option.splits)

lemma pickup_map_ok:
  assumes "coords_ok ss"
  shows "\<exists>cap. pickup_map env ss =
           Inr (fst (pickup_click (st_folium_pick env) ss),
                snd (pickup_click (st_folium_pick env) ss) @ [StCaption cap])"
proof -
  obtain cap where "address_caption (reverse_pick env) (fst (pickup_click (st_folium_pick env) ss))
      ''pickup_lat'' ''pickup_lon'' = [StCaption cap]"
    using address_caption_one by blast
  then show ?thesis
    using assms by (auto simp: pickup_map_def coords_ok_iff err_simps split: prod.splits)
qed

lemma dropoff_map_ok:
  assumes "coords_ok ss"
  shows "\<exists>cap. dropoff_map env ss =
           Inr (fst (dropoff_click (st_folium_drop env) ss),
                snd (dropoff_click (st_folium_drop env) ss) @ [StCaption cap])"
proof -
  obtain cap where "address_caption (reverse_drop env) (fst (dropoff_click (st_folium_drop env) ss))
      ''dropoff_lat'' ''dropoff_lon'' = [StCaption cap]"
    using address_caption_one by blast
  then show ?thesis
    using assms by (auto simp: dropoff_map_def coords_ok_iff err_simps split: prod.splits)
qed

lemma show_response_not_geofence:
  "StError ''Pickup outside NYC.'' \<notin> set (show_response lib outcome)"
  "StError ''Dropoff outside NYC.'' \<notin> set (show_response lib outcome)"
  by (auto simp: show_response_def network_error_def split: http_outcome.splits sum.splits)

lemma estimate_fare_ok:
  assumes "coords_ok ss"
  shows "\<exists>ui8 reqs. estimate_fare API_URL lib env sb ss = Inr (sb, ss, ui8, reqs)
           \<and> StError ''Pickup outside NYC.'' \<notin> set ui8
           \<and> StError ''Dropoff outside NYC.'' \<notin> set ui8"
  using assms show_response_not_geofence[of lib]
  by (auto simp: estimate_fare_def build_params_def coords_ok_iff err_simps Let_def)

lemma section6_ui:
  "section6 env = Inr (sb, ui6) \<Longrightarrow> set ui6 \<subseteq> {StError ''Time must be in the future.''}"
  by (auto simp: section6_def Let_def bind_err_def split: sum.splits if_splits)

lemma app_ok:
  assumes "coords_ok (init_session ss0)"
  shows "coords_ok (session (app API_URL lib env ss0))
       \<and> StError ''Pickup outside NYC.'' \<notin> set (shown (app API_URL lib env ss0))
       \<and> StError ''Dropoff outside NYC.'' \<notin> set (shown (app API_URL lib env ss0))"
proof (cases "section6 env")
  case (Inl e)
  then show ?thesis using assms by (simp add: app_def)
next
  case (Inr r6)
  obtain sb ui6 where r6: "r6 = (sb, ui6)" by (cases r6)
  let ?ss1 = "init_session ss0"
  let ?ss2 = "fst (pickup_click (st_folium_pick env) ?ss1)"
  let ?ss3 = "fst (dropoff_click (st_folium_drop env) ?ss2)"
  have ok2: "coords_ok ?ss2" using assms by (rule pickup_click_ok)
  have ok3: "coords_ok ?ss3" using ok2 by (rule dropoff_click_ok)
  obtain cap1 where p: "pickup_map env ?ss1 =
      Inr (?ss2, snd (pickup_click (st_folium_pick env) ?ss1) @ [StCaption cap1])"
    using pickup_map_ok[OF assms] by blast
  obtain cap2 where d: "dropoff_map env ?ss2 =
      Inr (?ss3, snd (dropoff_click (st_folium_drop env) ?ss2) @ [StCaption cap2])"
    using dropoff_map_ok[OF ok2] by blast
  obtain ui8 reqs where e: "estimate_fare API_URL lib env sb ?ss3 = Inr (sb, ?ss3, ui8, reqs)"
    and n1: "StError ''Pickup outside NYC.'' \<notin> set ui8"
    and n2: "StError ''Dropoff outside NYC.'' \<notin> set ui8"
    using estimate_fare_ok[OF ok3] by blast
  have a: "app API_URL lib env ss0 =
      \<lparr>session = ?ss3,
       shown = ui6 @ (snd (pickup_click (st_folium_pick env) ?ss1) @ [StCaption cap1]) @
               (snd (dropoff_click (st_folium_drop env) ?ss2) @ [StCaption cap2]) @ ui8,
       sent = reqs, uncaught = None\<rparr>"
    using Inr r6 p d e by (simp add: app_def Let_def)
  show ?thesis
    using ok3 n1 n2 section6_ui[of env sb ui6] Inr r6
      pickup_click_ui[of "st_folium_pick env" ?ss1] dropoff_click_ui[of "st_folium_drop env" ?ss2]
    by (auto simp: a)
qed

lemma reachable_inv: "reachable API_URL lib ss \<Longrightarrow> ss = Map.empty \<or> coords_ok ss"
proof (induction rule: reachable.induct)
  case start
  then show ?case by simp
next
  case (run ss env)
  then show ?case using app_ok[OF coords_ok_init] by blast
qed

text \<open>
  Claim C10. The default coordinates lie strictly inside the box, and every write to the
  four coordinates is guarded by \<open>is_within_nyc\<close>. So for every session that runs of the
  script can produce from the empty one: the session is still empty or both stored pairs
  are inside the box, after the initialisation they are inside the box, they still are when
  the run ends, and the run renders neither
  \<open>Pickup outside NYC.\<close> nor \<open>Dropoff outside NYC.\<close>.
\<close>

theorem geofence_errors_unreachable:
  assumes "reachable API_URL lib ss"
  shows "is_within_nyc DEFAULT_LON DEFAULT_LAT
       \<and> (ss = Map.empty \<or> coords_ok ss)
       \<and> coords_ok (init_session ss)
       \<and> coords_ok (session (app API_URL lib env ss))
       \<and> StError ''Pickup outside NYC.'' \<notin> set (shown (app API_URL lib env ss))
       \<and> StError ''Dropoff outside NYC.'' \<notin> set (shown (app API_URL lib env ss))"
  using default_within reachable_inv[OF assms] coords_ok_init[OF reachable_inv[OF assms]]
    app_ok[OF coords_ok_init[OF reachable_inv[OF assms]], of API_URL lib env]
  by blast

section \<open>The default time\<close>

lemma rounded_time_examples:
  "rounded_time (at_time 10 7 0) = Inr (at_time 10 15 0)"
  "rounded_time (at_time 10 15 0) = Inr (at_time 10 15 0)"
  "rounded_time (at_time 23 50 30) =
     Inr \<lparr>date_of = \<lparr>year = 2026, month = 11, day = 4\<rparr>,
          time_of = \<lparr>hour = 0, minute = 0, second = 0, microsecond = 0\<rparr>\<rparr>"
  by (simp_all add: rounded_time_def add_minutes_def minutes_to_next_def bind_err_def
        replace_second_microsecond_def Let_def at_time_def next_day_def days_in_month_def)

lemma rounded_time_on_boundary_minute:
  assumes "hour (time_of now) < 24" and "minute (time_of now) < 60"
      and "minute (time_of now) mod 15 = 0"
  shows "rounded_time now = Inr (replace_second_microsecond now)"
proof -
  have "(hour (time_of now) * 60 + minute (time_of now)) div 1440 = 0"
    using assms(1,2) by simp
  moreover have "(hour (time_of now) * 60 + minute (time_of now)) mod 1440 div 60 = hour (time_of now)"
    using assms(1,2) by simp
  moreover have "(hour (time_of now) * 60 + minute (time_of now)) mod 60 = minute (time_of now)"
    using assms(2) by simp
  ultimately show ?thesis
    using assms(3)
    by (cases now) (simp add: rounded_time_def add_minutes_def minutes_to_next_def bind_err_def Let_def)
qed

lemma replace_second_microsecond_earlier:
  assumes "0 < second (time_of now) \<or> 0 < microsecond (time_of now)"
  shows "dt_less (replace_second_microsecond now) now"
  using assms by (auto simp: dt_less_def dt_fields_def replace_second_microsecond_def)

lemma grid_arith0: "(m + (15 - m mod 15) mod 15) mod 15 = (0::nat)"
proof (cases "m mod 15 = 0")
  case True
  then show ?thesis by simp
next
  case False
  define a b where "a = m div 15" and "b = m mod 15"
  have lt: "b < 15" and eq: "m = 15 * a + b"
    by (simp_all add: a_def b_def)
  have "m + (15 - b) = 15 * (a + 1)"
    using lt eq by simp
  then have "m + (15 - m mod 15) = 15 * (m div 15 + 1)"
    by (simp only: a_def b_def)
  then have "(m + (15 - m mod 15)) mod 15 = 0"
    by (simp only: mod_mult_self1_is_0)
  moreover have "(15 - m mod 15) mod 15 = 15 - m mod 15"
    using False by simp
  ultimately show ?thesis by simp
qed

lemma grid_arith: "(h * 60 + m + (15 - m mod 15) mod 15) mod 60 mod 15 = (0::nat)"
proof -
  have "(h * 60 + m + (15 - m mod 15) mod 15) mod 60 mod 15 = (h * 60 + m + (15 - m mod 15) mod 15) mod 15"
    by (simp add: mod_mod_cancel)
  also have "\<dots> = (15 * (h * 4) + (m + (15 - m mod 15) mod 15)) mod 15"
    by (simp add: algebra_simps)
  also have "\<dots> = (m + (15 - m mod 15) mod 15) mod 15"
    by (simp only: mod_mult_self4)
  also have "\<dots> = 0"
    by (rule grid_arith0)
  finally show ?thesis .
qed

lemma rounded_time_on_grid:
  assumes "rounded_time now = Inr r"
  shows "minute (time_of r) mod 15 = 0 \<and> second (time_of r) = 0 \<and> microsecond (time_of r) = 0"
proof -
  obtain t where t: "add_minutes now (minutes_to_next now) = Inr t"
    and r: "r = replace_second_microsecond t"
    using assms by (auto simp: rounded_time_def bind_err_def split: sum.splits)
  have "minute (time_of t) =
      (hour (time_of now) * 60 + minute (time_of now) + minutes_to_next now) mod 60"
    using t by (auto simp: add_minutes_def bind_err_def Let_def split: sum.splits)
  then have "minute (time_of t) mod 15 = 0"
    by (simp only: minutes_to_next_def grid_arith)
  then show ?thesis
    by (simp add: r replace_second_microsecond_def)
qed

text \<open>
  Claim C3 says that the default time is the least quarter-hour boundary that is not before
  the current time. At 10:15:30 the script computes 10:15:00, which is before the current
  time; with untouched widgets the same run then finds its own default invalid and renders
  the sidebar error.
\<close>

theorem rounded_time_drops_seconds:
  "rounded_time (at_time 10 15 30) = Inr (at_time 10 15 0)
   \<and> dt_less (at_time 10 15 0) (at_time 10 15 30)
   \<and> section6 ((example_env fare_12_50)\<lparr>datetime_now := at_time 10 15 30\<rparr>) =
       Inr (example_sidebar False, [StError ''Time must be in the future.''])"
  by (simp add: section6_def example_env_def rounded_time_def add_minutes_def minutes_to_next_def
        bind_err_def replace_second_microsecond_def Let_def at_time_def example_sidebar_def
        combine_def dt_ge_def dt_less_def dt_fields_def strftime_def pad2_def pad4_def digit_def)

section \<open>The answer of the fare API\<close>

lemma decimal_pad2_mod: "decimal (pad2 n) = n mod 100"
  using mod_mult2_eq[of n 10 10] by (simp add: decimal_def pad2_def digit_val_digit)

lemma format_2f_finite:
  assumes "0 \<le> mag"
  shows "\<exists>c ip fp. \<bar>of_nat c - mag * 100\<bar> \<le> 1 / 2
           \<and> (\<bar>of_nat c - mag * 100\<bar> = 1 / 2 \<longrightarrow> even c)
           \<and> is_digits ip \<and> is_digits fp \<and> length fp = 2
           \<and> decimal ip * 100 + decimal fp = c
           \<and> format_2f (Finite neg mag) = (if neg then ''-'' else []) @ ip @ ''.'' @ fp"
proof -
  define z where "z = round_half_even (mag * 100)"
  define c where "c = nat z"
  have z: "0 \<le> z" using assms by (simp add: z_def round_half_even_nonneg)
  then have cz: "(of_nat c :: rat) = of_int z" by (simp add: c_def)
  have near: "\<bar>of_nat c - mag * 100\<bar> \<le> 1 / 2"
    unfolding cz z_def by (rule round_half_even_near)
  have tie: "\<bar>of_nat c - mag * 100\<bar> = 1 / 2 \<longrightarrow> even c"
  proof
    assume "\<bar>of_nat c - mag * 100\<bar> = 1 / 2"
    then have "even z" unfolding cz z_def by (rule round_half_even_tie)
    then show "even c" using z by (simp add: c_def even_nat_iff)
  qed
  have dec: "decimal (str_nat (c div 100)) * 100 + decimal (pad2 c) = c"
    by (simp add: decimal_str_nat decimal_pad2_mod)
  have len: "length (pad2 c) = 2" by (simp add: pad2_def)
  have fmt: "format_2f (Finite neg mag) =
      (if neg then ''-'' else []) @ str_nat (c div 100) @ ''.'' @ pad2 c"
    by (simp add: format_2f_def Let_def c_def z_def)
  show ?thesis
    using near tie is_digits_str_nat[of "c div 100"] is_digits_pad2[of c] len dec fmt by blast
qed

lemma str_int_decimal: "0 \<le> i \<Longrightarrow> is_digits (str_int i) \<and> int (decimal (str_int i)) = i"
  by (simp add: str_int_def is_digits_str_nat decimal_str_nat)

text \<open>
  Claim C4, as the script has it. At most one request is sent, never a second one, and its
  outcome is rendered as follows. A transport or timeout failure gives the network-error
  message. A status other than 200 gives an error message that contains the status code in
  decimal. A 200 response whose JSON body is an object that lacks the key \<open>fare\<close>, or
  holds null for it, gives the missing-fare message. A 200 response whose JSON object holds
  a \<open>fare\<close> that is not null and that \<open>float\<close> parses to a finite number gives that
  number formatted to two decimal places: a sign if it is negative, the integer part, a
  point and two digits, which together are the number rounded to the nearest hundredth (a
  tie to the even one).
\<close>

theorem show_response_cases:
  "show_response lib (Raised e) = [StError (''Network error: '' @ e)]
   \<and> (status \<noteq> 200 \<longrightarrow>
        show_response lib (Response status body) = [StError (''API error '' @ str_int status)])
   \<and> (0 \<le> status \<longrightarrow> is_digits (str_int status) \<and> int (decimal (str_int status)) = status)
   \<and> (map_of entries0 ''fare'' = None \<or> map_of entries0 ''fare'' = Some JNull \<longrightarrow>
        show_response lib (Response 200 (Inr (JObj entries0))) =
          [StError ''No 'fare' in API response.''])
   \<and> (map_of entries ''fare'' = Some v \<and> v \<noteq> JNull \<and> py_float v = Inr (Finite neg mag)
        \<and> 0 \<le> mag \<longrightarrow>
        (\<exists>c ip fp. \<bar>of_nat c - mag * 100\<bar> \<le> 1 / 2
           \<and> (\<bar>of_nat c - mag * 100\<bar> = 1 / 2 \<longrightarrow> even c)
           \<and> is_digits ip \<and> is_digits fp \<and> length fp = 2
           \<and> decimal ip * 100 + decimal fp = c
           \<and> show_response python_lib (Response 200 (Inr (JObj entries))) =
               [StSuccess (''Estimated Fare: **$'' @ (if neg then ''-'' else []) @ ip @ ''.'' @ fp
                           @ ''**'')]))
   \<and> (\<forall>sb' ss' ui8 reqs.
        estimate_fare API_URL lib env sb ss = Inr (sb', ss', ui8, reqs) \<longrightarrow> length reqs \<le> 1)"
proof -
  have "\<forall>sb' ss' ui8 reqs.
        estimate_fare API_URL lib env sb ss = Inr (sb', ss', ui8, reqs) \<longrightarrow> length reqs \<le> 1"
    using estimate_fare_at_most_one by blast
  moreover have "map_of entries0 ''fare'' = None \<or> map_of entries0 ''fare'' = Some JNull \<longrightarrow>
        show_response lib (Response 200 (Inr (JObj entries0))) =
          [StError ''No 'fare' in API response.'']"
    by (auto simp: show_response_def result_get_def)
  moreover have "map_of entries ''fare'' = Some v \<and> v \<noteq> JNull \<and> py_float v = Inr (Finite neg mag)
        \<and> 0 \<le> mag \<longrightarrow>
        (\<exists>c ip fp. \<bar>of_nat c - mag * 100\<bar> \<le> 1 / 2
           \<and> (\<bar>of_nat c - mag * 100\<bar> = 1 / 2 \<longrightarrow> even c)
           \<and> is_digits ip \<and> is_digits fp \<and> length fp = 2
           \<and> decimal ip * 100 + decimal fp = c
           \<and> show_response python_lib (Response 200 (Inr (JObj entries))) =
               [StSuccess (''Estimated Fare: **$'' @ (if neg then ''-'' else []) @ ip @ ''.'' @ fp
                           @ ''**'')])"
  proof
    assume h: "map_of entries ''fare'' = Some v \<and> v \<noteq> JNull \<and> py_float v = Inr (Finite neg mag)
        \<and> 0 \<le> mag"
    then have s: "show_response python_lib (Response 200 (Inr (JObj entries))) =
        [StSuccess (''Estimated Fare: **$'' @ format_2f (Finite neg mag) @ ''**'')]"
      by (simp add: show_response_def result_get_def python_lib_def)
    from h have "0 \<le> mag" by simp
    from format_2f_finite[OF this, of neg] show "\<exists>c ip fp. \<bar>of_nat c - mag * 100\<bar> \<le> 1 / 2
           \<and> (\<bar>of_nat c - mag * 100\<bar> = 1 / 2 \<longrightarrow> even c)
           \<and> is_digits ip \<and> is_digits fp \<and> length fp = 2
           \<and> decimal ip * 100 + decimal fp = c
           \<and> show_response python_lib (Response 200 (Inr (JObj entries))) =
               [StSuccess (''Estimated Fare: **$'' @ (if neg then ''-'' else []) @ ip @ ''.'' @ fp
                           @ ''**'')]"
      unfolding s by auto
  qed
  moreover have "show_response lib (Raised e) = [StError (''Network error: '' @ e)]"
    by (simp add: show_response_def network_error_def)
  moreover have "status \<noteq> 200 \<longrightarrow>
        show_response lib (Response status body) = [StError (''API error '' @ str_int status)]"
    by (simp add: show_response_def)
  moreover have "0 \<le> status \<longrightarrow> is_digits (str_int status) \<and> int (decimal (str_int status)) = status"
    using str_int_decimal by blast
  ultimately show ?thesis by blast
qed

text \<open>
  Claim C4 as stated fails. In the body \<open>{"fare": null}\<close> the key is present, and the page
  shows the missing-fare message. In \<open>{"fare": []}\<close> the fare is present and not null,
  and no fare is shown. In \<open>{"fare": Infinity}\<close> the fare parses as a float, and what is
  shown has no decimal places. The body \<open>[]\<close> is JSON and lacks the key, and the page does
  not show the missing-fare message.
\<close>

theorem fare_present_without_decimal_fare:
  "map_of [(''fare'', JNull :: pyfloat json)] ''fare'' = Some JNull
   \<and> show_response python_lib (Response 200 (Inr (JObj [(''fare'', JNull)]))) =
       [StError ''No 'fare' in API response.'']
   \<and> show_response python_lib (Response 200 (Inr (JObj [(''fare'', JArr [])]))) =
       [StError (''Network error: float() argument must be a string or a real number, not ''
                 @ [CHR 0x27] @ ''list'' @ [CHR 0x27])]
   \<and> show_response python_lib (Response 200 (Inr (JObj [(''fare'', JFloat (Inf False))]))) =
       [StSuccess ''Estimated Fare: **$inf**'']
   \<and> show_response python_lib (Response 200 (Inr (JArr []))) =
       [StError (''Network error: '' @ [CHR 0x27] @ ''list'' @ [CHR 0x27]
                 @ '' object has no attribute '' @ [CHR 0x27] @ ''get'' @ [CHR 0x27])]"
  by (simp add: show_response_def result_get_def python_lib_def py_float_def format_2f_def
        type_name_def network_error_def)

section \<open>The model on the example inputs\<close>

lemma str_int_500: "str_int 500 = ''500''"
  by code_simp

lemma format_2f_examples:
  "format_2f (Finite False (25 / 2)) = ''12.50''"
  "format_2f (Finite False 7) = ''7.00''"
  by code_simp+

lemma int_to_float_7: "int_to_float 7 = Inr (Finite False 7)"
  by code_simp

lemma example_session_lookup:
  "example_session plat plon dlat dlon ''pickup_lat'' = Some plat"
  "example_session plat plon dlat dlon ''pickup_lon'' = Some plon"
  "example_session plat plon dlat dlon ''dropoff_lat'' = Some dlat"
  "example_session plat plon dlat dlon ''dropoff_lon'' = Some dlon"
  by (simp_all add: example_session_def)

lemma example_within:
  "is_within_nyc (-73.98) 40.75" "is_within_nyc (-73.99) 40.76"
  "\<not> is_within_nyc (-73.98) 41" "\<not> is_within_nyc (-74.25) 40.76"
  by (simp_all add: is_within_nyc_def NYC_BOUNDS_values)

lemma example_show: "show_response python_lib fare_12_50 = [StSuccess ''Estimated Fare: **$12.50**'']"
  by (simp add: show_response_def fare_12_50_def result_get_def python_lib_def py_float_def
        format_2f_examples)

lemma example_estimate:
  "estimate_fare ''https://fare.example'' python_lib (example_env fare_12_50) (example_sidebar True)
     (example_session DEFAULT_LAT DEFAULT_LON 40.76 (-73.99)) =
   Inr (example_sidebar True, example_session DEFAULT_LAT DEFAULT_LON 40.76 (-73.99),
        [StSuccess ''Estimated Fare: **$12.50**''], [example_request])"
  using default_within example_within(2) example_show
  by (simp add: estimate_fare_def build_params_def sget_def bind_err_def example_session_lookup
        example_env_def example_sidebar_def example_request_def)

theorem show_response_cases_witness:
  "show_response python_lib (Raised ''timed out'') = [StError ''Network error: timed out'']
   \<and> show_response python_lib (Response 500 (Inl ''not JSON'')) = [StError ''API error 500'']
   \<and> is_digits ''500'' \<and> decimal ''500'' = 500
   \<and> show_response python_lib (Response 200 (Inr (JObj []))) =
       [StError ''No 'fare' in API response.'']
   \<and> py_float (JFloat (Finite False 12.5)) = Inr (Finite False 12.5)
   \<and> show_response python_lib fare_12_50 = [StSuccess ''Estimated Fare: **$12.50**'']
   \<and> py_float (JInt 7) = Inr (Finite False 7)
   \<and> show_response python_lib (Response 200 (Inr (JObj [(''fare'', JInt 7)]))) =
       [StSuccess ''Estimated Fare: **$7.00**'']
   \<and> estimate_fare ''https://fare.example'' python_lib (example_env fare_12_50)
         (example_sidebar True) (example_session DEFAULT_LAT DEFAULT_LON 40.76 (-73.99)) =
       Inr (example_sidebar True, example_session DEFAULT_LAT DEFAULT_LON 40.76 (-73.99),
            [StSuccess ''Estimated Fare: **$12.50**''], [example_request])
   \<and> length [example_request] \<le> 1"
proof -
  have f: "py_float (JFloat (Finite False (25 / 2))) = Inr (Finite False (25 / 2))"
    and g: "py_float (JInt 7) = Inr (Finite False 7)"
    by (simp_all add: py_float_def int_to_float_7)
  have s: "show_response python_lib (Response 200 (Inr (JObj [(''fare'', JInt 7)]))) =
      [StSuccess ''Estimated Fare: **$7.00**'']"
    by (simp add: show_response_def result_get_def python_lib_def g format_2f_examples)
  show ?thesis
    using show_response_cases[where lib = python_lib and e = "''timed out''" and status = 500
        and body = "Inl ''not JSON''" and ?entries0.0 = "[]"
        and entries = "[(''fare'', JFloat (Finite False 12.5))]"
        and v = "JFloat (Finite False 12.5)" and neg = False and mag = "12.5"
        and API_URL = "''https://fare.example''" and env = "example_env fare_12_50"
        and sb = "example_sidebar True"
        and ss = "example_session DEFAULT_LAT DEFAULT_LON 40.76 (-73.99)"]
      f g s example_show example_estimate
    by (simp add: str_int_500)
qed

theorem estimate_fare_checks_in_order_witness:
  "st_button (example_env fare_12_50)
   \<and> estimate_fare ''https://fare.example'' python_lib (example_env fare_12_50)
         (example_sidebar False) (example_session 41 (-73.98) 40.76 (-74.25)) =
       Inr (example_sidebar False, example_session 41 (-73.98) 40.76 (-74.25),
            [StError ''Please select a valid future time.''], [])
   \<and> estimate_fare ''https://fare.example'' python_lib (example_env fare_12_50)
         (example_sidebar True) (example_session 41 (-73.98) 40.76 (-74.25)) =
       Inr (example_sidebar True, example_session 41 (-73.98) 40.76 (-74.25),
            [StError ''Pickup outside NYC.''], [])
   \<and> estimate_fare ''https://fare.example'' python_lib (example_env fare_12_50)
         (example_sidebar True) (example_session 40.75 (-73.98) 40.76 (-74.25)) =
       Inr (example_sidebar True, example_session 40.75 (-73.98) 40.76 (-74.25),
            [StError ''Dropoff outside NYC.''], [])
   \<and> estimate_fare ''https://fare.example'' python_lib (example_env fare_12_50)
         (example_sidebar True) (example_session DEFAULT_LAT DEFAULT_LON 40.76 (-73.99)) =
       Inr (example_sidebar True, example_session DEFAULT_LAT DEFAULT_LON 40.76 (-73.99),
            [StSuccess ''Estimated Fare: **$12.50**''], [example_request])
   \<and> coords_ok (example_session DEFAULT_LAT DEFAULT_LON 40.76 (-73.99))"
proof -
  have b: "st_button (example_env fare_12_50)"
    by (simp add: example_env_def)
  have v: "\<not> dt_valid (example_sidebar False)" "dt_valid (example_sidebar True)"
    by (simp_all add: example_sidebar_def)
  show ?thesis
    using b v example_within default_within
      estimate_fare_checks_in_order[OF b, where sb = "example_sidebar False"
        and ss = "example_session 41 (-73.98) 40.76 (-74.25)"
        and API_URL = "''https://fare.example''" and lib = python_lib]
      estimate_fare_checks_in_order[OF b, where sb = "example_sidebar True"
        and ss = "example_session 41 (-73.98) 40.76 (-74.25)"
        and plon = "-73.98" and plat = 41
        and API_URL = "''https://fare.example''" and lib = python_lib]
      estimate_fare_checks_in_order[OF b, where sb = "example_sidebar True"
        and ss = "example_session 40.75 (-73.98) 40.76 (-74.25)"
        and plon = "-73.98" and plat = "40.75" and dlon = "-74.25" and dlat = "40.76"
        and API_URL = "''https://fare.example''" and lib = python_lib]
      estimate_fare_checks_in_order[OF b, where sb = "example_sidebar True"
        and ss = "example_session DEFAULT_LAT DEFAULT_LON 40.76 (-73.99)"
        and API_URL = "''https://fare.example''" and lib = python_lib]
      example_estimate
    by (simp add: example_session_lookup)
qed

theorem click_updates_only_its_own_pair_witness:
  "pickup_click (click_at 40.76 (-73.99)) (example_session 40.75 (-73.98) 40.75 (-73.98)) =
     (example_session 40.76 (-73.99) 40.75 (-73.98), [])
   \<and> dropoff_click (click_at 40.76 (-73.99)) (example_session 40.75 (-73.98) 40.75 (-73.98)) =
     (example_session 40.75 (-73.98) 40.76 (-73.99), [])
   \<and> is_within_nyc (-73.99) 40.76
   \<and> sget (example_session 40.76 (-73.99) 40.75 (-73.98)) ''pickup_lat'' = Inr 40.76
   \<and> sget (example_session 40.75 (-73.98) 40.76 (-73.99)) ''dropoff_lon'' = Inr (-73.99)
   \<and> example_session 40.76 (-73.99) 40.75 (-73.98) ''dropoff_lat'' =
       example_session 40.75 (-73.98) 40.75 (-73.98) ''dropoff_lat''
   \<and> pickup_click (click_at 41 (-73.98)) (example_session 40.75 (-73.98) 40.75 (-73.98)) =
     (example_session 40.75 (-73.98) 40.75 (-73.98), [StError ''Selected pickup is outside NYC.''])
   \<and> dropoff_click (click_at 41 (-73.98)) (example_session 40.75 (-73.98) 40.75 (-73.98)) =
     (example_session 40.75 (-73.98) 40.75 (-73.98), [StError ''Selected dropoff is outside NYC.''])
   \<and> \<not> is_within_nyc (-73.98) 41"
proof -
  let ?ss = "example_session 40.75 (-73.98) 40.75 (-73.98)"
  have p1: "pickup_click (Some \<lparr>last_clicked = Some \<lparr>lat = 40.76, lng = -73.99\<rparr>\<rparr>) ?ss =
      (example_session 40.76 (-73.99) 40.75 (-73.98), [])"
    using example_within by (auto simp: pickup_click_def example_session_def)
  have d1: "dropoff_click (Some \<lparr>last_clicked = Some \<lparr>lat = 40.76, lng = -73.99\<rparr>\<rparr>) ?ss =
      (example_session 40.75 (-73.98) 40.76 (-73.99), [])"
    using example_within by (auto simp: dropoff_click_def example_session_def)
  have p2: "pickup_click (Some \<lparr>last_clicked = Some \<lparr>lat = 41, lng = -73.98\<rparr>\<rparr>) ?ss =
      (?ss, [StError ''Selected pickup is outside NYC.''])"
    using example_within by (simp add: pickup_click_def)
  have d2: "dropoff_click (Some \<lparr>last_clicked = Some \<lparr>lat = 41, lng = -73.98\<rparr>\<rparr>) ?ss =
      (?ss, [StError ''Selected dropoff is outside NYC.''])"
    using example_within by (simp add: dropoff_click_def)
  show ?thesis
    using click_updates_only_its_own_pair[OF p1 d1] click_updates_only_its_own_pair[OF p2 d2]
      p1 d1 p2 d2 example_within
    by (simp add: click_at_def)
qed

lemma section6_example:
  "section6 (example_env answer) = Inr (example_sidebar True, [])"
  "section6 ((example_env answer)\<lparr>st_time_input := Some (time_of (at_time 10 6 0))\<rparr>) =
     Inr ((example_sidebar False)\<lparr>time_data := time_of (at_time 10 6 0), dt_raw := at_time 10 6 0,
            pickup_datetime_formatted := ''2026-11-03 10:06:00''\<rparr>,
          [StError ''Time must be in the future.''])"
  "section6 ((example_env answer)\<lparr>st_time_input := Some (time_of (at_time 10 8 0))\<rparr>) =
     Inr ((example_sidebar True)\<lparr>time_data := time_of (at_time 10 8 0), dt_raw := at_time 10 8 0,
            pickup_datetime_formatted := ''2026-11-03 10:08:00''\<rparr>, [])"
  by (simp_all add: section6_def example_env_def rounded_time_def add_minutes_def
        minutes_to_next_def bind_err_def replace_second_microsecond_def Let_def at_time_def
        example_sidebar_def combine_def dt_ge_def dt_less_def dt_fields_def strftime_def
        pad2_def pad4_def digit_def)

lemma example_less:
  "dt_less (at_time 10 6 0) (at_time 10 7 0)" "\<not> dt_less (at_time 10 8 0) (at_time 10 7 0)"
  by (simp_all add: dt_less_def dt_fields_def at_time_def)

lemma example_coords: "coords_ok (example_session DEFAULT_LAT DEFAULT_LON 40.76 (-73.99))"
  using default_within example_within(2) by (simp add: coords_ok_def example_session_lookup)








lemma example_run:
  "app ''https://fare.example'' python_lib
     ((example_env answer)\<lparr>st_folium_drop := click_at 40.76 (-73.99)\<rparr>) Map.empty =
   \<lparr>session = example_session DEFAULT_LAT DEFAULT_LON 40.76 (-73.99),
    shown = [StCaption (envelope @ '' Address: Not found''),
             StCaption ''Address lookup unavailable.''] @ show_response python_lib answer,
    sent = [example_request], uncaught = None\<rparr>"
proof -
  let ?env = "(example_env answer)\<lparr>st_folium_drop := click_at 40.76 (-73.99)\<rparr>"
  let ?ss1 = "example_session DEFAULT_LAT DEFAULT_LON DEFAULT_LAT DEFAULT_LON"
  let ?ss3 = "example_session DEFAULT_LAT DEFAULT_LON 40.76 (-73.99)"
  have i: "init_session Map.empty = ?ss1"
    by (rule init_session_empty)
  have s: "section6 ?env = Inr (example_sidebar True, [])"
    using section6_example(1)[of answer] by (simp add: section6_def example_env_def)
  have p: "pickup_map ?env ?ss1 = Inr (?ss1, [StCaption (envelope @ '' Address: Not found'')])"
    by (simp add: pickup_map_def pickup_click_def address_caption_def sget_def bind_err_def
          example_session_lookup example_env_def)
  have c: "dropoff_click (click_at 40.76 (-73.99)) ?ss1 = (?ss3, [])"
    using example_within by (auto simp: dropoff_click_def click_at_def example_session_def)
  have d: "dropoff_map ?env ?ss1 = Inr (?ss3, [StCaption ''Address lookup unavailable.''])"
    using c
    by (simp add: dropoff_map_def address_caption_def sget_def bind_err_def
          example_session_lookup example_env_def)
  have e: "estimate_fare ''https://fare.example'' python_lib ?env (example_sidebar True) ?ss3 =
      Inr (example_sidebar True, ?ss3, show_response python_lib answer, [example_request])"
    using example_within default_within
    by (simp add: estimate_fare_def build_params_def sget_def bind_err_def example_session_lookup
          example_env_def example_sidebar_def example_request_def)
  show ?thesis
    using i s p d e by (simp add: app_def Let_def)
qed

theorem estimate_fare_keeps_state_witness:
  "estimate_fare ''https://fare.example'' python_lib (example_env fare_12_50)
       (example_sidebar True) (example_session DEFAULT_LAT DEFAULT_LON 40.76 (-73.99)) =
     Inr (example_sidebar True, example_session DEFAULT_LAT DEFAULT_LON 40.76 (-73.99),
          [StSuccess ''Estimated Fare: **$12.50**''], [example_request])
   \<and> session (app ''https://fare.example'' python_lib
         ((example_env (Response 500 (Inl [])))\<lparr>st_folium_drop := click_at 40.76 (-73.99)\<rparr>)
         Map.empty) = example_session DEFAULT_LAT DEFAULT_LON 40.76 (-73.99)
   \<and> session (app ''https://fare.example'' python_lib
         ((example_env (Response 500 (Inl [])))\<lparr>st_folium_drop := click_at 40.76 (-73.99),
            st_button := False\<rparr>) Map.empty) = example_session DEFAULT_LAT DEFAULT_LON 40.76 (-73.99)"
  using estimate_fare_keeps_state[where API_URL = "''https://fare.example''" and lib = python_lib
      and env = "example_env fare_12_50" and sb = "example_sidebar True"
      and ss = "example_session DEFAULT_LAT DEFAULT_LON 40.76 (-73.99)"]
    estimate_fare_keeps_state[where API_URL = "''https://fare.example''" and lib = python_lib
      and env = "(example_env (Response 500 (Inl [])))\<lparr>st_folium_drop := click_at 40.76 (-73.99)\<rparr>"
      and ?ss0.0 = Map.empty]
    example_estimate example_run[of "Response 500 (Inl [])"]
  by simp

theorem geocoding_failure_is_contained_witness:
  "example_session 40.75 (-73.98) 40.76 (-73.99) ''pickup_lat'' = Some 40.75
   \<and> example_session 40.75 (-73.98) 40.76 (-73.99) ''pickup_lon'' = Some (-73.98)
   \<and> address_caption (\<lambda>_ _. Location ''Times Square'')
         (example_session 40.75 (-73.98) 40.76 (-73.99)) ''pickup_lat'' ''pickup_lon'' =
       [StCaption (envelope @ '' Address: Times Square'')]
   \<and> address_caption (\<lambda>_ _. NoLocation)
         (example_session 40.75 (-73.98) 40.76 (-73.99)) ''pickup_lat'' ''pickup_lon'' =
       [StCaption (envelope @ '' Address: Not found'')]
   \<and> address_caption (\<lambda>_ _. GeoFailure)
         (example_session 40.75 (-73.98) 40.76 (-73.99)) ''pickup_lat'' ''pickup_lon'' =
       [StCaption ''Address lookup unavailable.'']
   \<and> session (app ''https://fare.example'' python_lib
         ((example_env fare_12_50)\<lparr>reverse_pick := (\<lambda>_ _. GeoFailure),
            reverse_drop := (\<lambda>_ _. GeoFailure)\<rparr>) Map.empty) =
       session (app ''https://fare.example'' python_lib (example_env fare_12_50) Map.empty)"
  using
    geocoding_failure_is_contained[where ss = "example_session 40.75 (-73.98) 40.76 (-73.99)"
      and lat_key = "''pickup_lat''" and lon_key = "''pickup_lon''" and la = "40.75"
      and lo = "-73.98" and geo = "\<lambda>_ _. Location ''Times Square''"
      and API_URL = "''https://fare.example''" and lib = python_lib
      and env = "example_env fare_12_50" and ?ss0.0 = Map.empty
      and ?g1.0 = "\<lambda>_ _. GeoFailure" and ?g2.0 = "\<lambda>_ _. GeoFailure"]
    geocoding_failure_is_contained[where ss = "example_session 40.75 (-73.98) 40.76 (-73.99)"
      and lat_key = "''pickup_lat''" and lon_key = "''pickup_lon''" and la = "40.75"
      and lo = "-73.98" and geo = "\<lambda>_ _. NoLocation"
      and API_URL = "''https://fare.example''" and lib = python_lib
      and env = "example_env fare_12_50" and ?ss0.0 = Map.empty
      and ?g1.0 = "\<lambda>_ _. GeoFailure" and ?g2.0 = "\<lambda>_ _. GeoFailure"]
    geocoding_failure_is_contained[where ss = "example_session 40.75 (-73.98) 40.76 (-73.99)"
      and lat_key = "''pickup_lat''" and lon_key = "''pickup_lon''" and la = "40.75"
      and lo = "-73.98" and geo = "\<lambda>_ _. GeoFailure"
      and API_URL = "''https://fare.example''" and lib = python_lib
      and env = "example_env fare_12_50" and ?ss0.0 = Map.empty
      and ?g1.0 = "\<lambda>_ _. GeoFailure" and ?g2.0 = "\<lambda>_ _. GeoFailure"]
  by (simp add: example_session_lookup)

theorem geofence_errors_unreachable_witness:
  "reachable ''https://fare.example'' python_lib
     (example_session DEFAULT_LAT DEFAULT_LON 40.76 (-73.99))
   \<and> is_within_nyc DEFAULT_LON DEFAULT_LAT
   \<and> coords_ok (example_session DEFAULT_LAT DEFAULT_LON 40.76 (-73.99))
   \<and> coords_ok (session (app ''https://fare.example'' python_lib (example_env fare_12_50)
         (example_session DEFAULT_LAT DEFAULT_LON 40.76 (-73.99))))
   \<and> StError ''Pickup outside NYC.'' \<notin> set (shown (app ''https://fare.example'' python_lib
         (example_env fare_12_50) (example_session DEFAULT_LAT DEFAULT_LON 40.76 (-73.99))))
   \<and> StError ''Dropoff outside NYC.'' \<notin> set (shown (app ''https://fare.example'' python_lib
         (example_env fare_12_50) (example_session DEFAULT_LAT DEFAULT_LON 40.76 (-73.99))))"
proof -
  have "reachable ''https://fare.example'' python_lib
      (session (app ''https://fare.example'' python_lib
         ((example_env fare_12_50)\<lparr>st_folium_drop := click_at 40.76 (-73.99)\<rparr>) Map.empty))"
    by (rule reachable.run) (rule reachable.start)
  then have r: "reachable ''https://fare.example'' python_lib
      (example_session DEFAULT_LAT DEFAULT_LON 40.76 (-73.99))"
    using example_run[of fare_12_50] by simp
  have "coords_ok (example_session DEFAULT_LAT DEFAULT_LON 40.76 (-73.99))"
    by (rule example_coords)
  then have i: "init_session (example_session DEFAULT_LAT DEFAULT_LON 40.76 (-73.99)) =
      example_session DEFAULT_LAT DEFAULT_LON 40.76 (-73.99)"
    by (rule init_session_ok)
  show ?thesis
    using geofence_errors_unreachable[OF r, where env = "example_env fare_12_50"] r i
    by simp
qed

end
